theory Spec2Isabelle
  imports Main "HOL-Library.Sublist"
begin

section \<open>JavaScript values, numbers and arrays\<close>

text \<open>
  The client in \<^verbatim>\<open>src/index.js\<close> handles three kinds of data that need a model of
  JavaScript's own behaviour: the elements of a \<^verbatim>\<open>dataPoints\<close> array (a number or
  \<^verbatim>\<open>null\<close>; a read past the end of an array gives \<^verbatim>\<open>undefined\<close>), the access token
  (a string, or \<^verbatim>\<open>undefined\<close> when the payload has no such field) and the \<^verbatim>\<open>type\<close>
  of a component.
\<close>

datatype 'a jsval = Undefined | Null | Val 'a

text \<open>
  JavaScript numbers are IEEE-754 doubles. Nothing below depends on how two numbers are
  added, so the number type \<open>'n\<close> and its operations are parameters: \<open>plus_num\<close> is the
  addition of two numbers, \<open>zero_num\<close> is the number \<^verbatim>\<open>null\<close> converts to and \<open>nan_num\<close>
  is the number \<^verbatim>\<open>undefined\<close> converts to (\<^verbatim>\<open>NaN\<close>).
\<close>

record 'n number_ops =
  plus_num :: "'n \<Rightarrow> 'n \<Rightarrow> 'n"
  zero_num :: 'n
  nan_num :: 'n

text \<open>\<^verbatim>\<open>ToNumber\<close> on the three kinds of value.\<close>

fun to_number :: "'n number_ops \<Rightarrow> 'n jsval \<Rightarrow> 'n" where
  "to_number ops Undefined = nan_num ops"
| "to_number ops Null = zero_num ops"
| "to_number ops (Val n) = n"

text \<open>
  The operator \<^verbatim>\<open>+\<close> on operands that are numbers, \<^verbatim>\<open>null\<close> or \<^verbatim>\<open>undefined\<close>: both are
  converted to numbers and added, and the result is always a number.
\<close>

definition js_add :: "'n number_ops \<Rightarrow> 'n jsval \<Rightarrow> 'n jsval \<Rightarrow> 'n jsval" where
  "js_add ops x y = Val (plus_num ops (to_number ops x) (to_number ops y))"

text \<open>
  An instance for evaluating examples: integers with exact addition, and a \<open>NaN\<close> that
  absorbs.
\<close>

datatype exact_num = NaN | Fin int

fun exact_plus :: "exact_num \<Rightarrow> exact_num \<Rightarrow> exact_num" where
  "exact_plus (Fin a) (Fin b) = Fin (a + b)"
| "exact_plus _ _ = NaN"

definition exact :: "exact_num number_ops" where
  "exact = \<lparr>plus_num = exact_plus, zero_num = Fin 0, nan_num = NaN\<rparr>"

text \<open>
  Arrays are lists. \<^verbatim>\<open>a[i]\<close> past the end reads \<^verbatim>\<open>undefined\<close>; \<^verbatim>\<open>a[i] = v\<close> past the end
  extends the array, leaving the skipped positions empty (they read as \<^verbatim>\<open>undefined\<close>).
\<close>

definition js_get :: "'a jsval list \<Rightarrow> nat \<Rightarrow> 'a jsval" where
  "js_get xs i = (if i < length xs then xs ! i else Undefined)"

definition js_set :: "'a jsval list \<Rightarrow> nat \<Rightarrow> 'a jsval \<Rightarrow> 'a jsval list" where
  "js_set xs i v =
     (if i < length xs then xs[i := v]
      else xs @ replicate (i - length xs) Undefined @ [v])"

section \<open>The aggregation loop of \<^verbatim>\<open>get_combined_inverter_data\<close>\<close>

text \<open>
  A series record of the response: \<^verbatim>\<open>{name, date, dataPoints}\<close>, with strings for the
  name and the date and an array for the data points. The type of the \<open>dataPoints\<close>
  field is a parameter: in the parsed response it is the array itself, in the running
  program it is a reference to an array in the store.
\<close>

record 'a item =
  name :: string
  date :: string
  dataPoints :: 'a

type_synonym addr = nat
type_synonym 'n heap = "addr \<Rightarrow> 'n jsval list"

text \<open>
  Parsing the response creates one fresh array per record: record number \<open>i\<close> of the
  response gets the array at address \<open>i\<close>.
\<close>

definition load :: "'n jsval list item list \<Rightarrow> addr item list \<times> 'n heap" where
  "load res =
     (map (\<lambda>i. \<lparr>name = name (res ! i), date = date (res ! i), dataPoints = i\<rparr>) [0..<length res],
      \<lambda>a. if a < length res then dataPoints (res ! a) else [])"

text \<open>\<^verbatim>\<open>item.name + "_" + item.date\<close>\<close>

definition index_of :: "'a item \<Rightarrow> string" where
  "index_of item = name item @ ''_'' @ date item"

text \<open>
  One round of the inner loop, lines 130 to 132: \<^verbatim>\<open>data[index]\<close> is the array at \<open>acc\<close>,
  \<^verbatim>\<open>item.dataPoints\<close> the array at \<open>src\<close>.
  \<^verbatim>\<open>
  if (data[index][i] === null) continue;
  data[index][i] += item.dataPoints[i];
  \<close>
\<close>

definition add_at :: "'n number_ops \<Rightarrow> 'n heap \<Rightarrow> addr \<Rightarrow> addr \<Rightarrow> nat \<Rightarrow> 'n heap" where
  "add_at ops h acc src i =
     (if js_get (h acc) i = Null then h
      else h(acc := js_set (h acc) i (js_add ops (js_get (h acc) i) (js_get (h src) i))))"

text \<open>
  The inner loop, \<^verbatim>\<open>for (const i in item.dataPoints)\<close>: the indices of the later
  record's array, in ascending order (an array of a parsed response has no empty
  positions).
\<close>

definition add_points :: "'n number_ops \<Rightarrow> 'n heap \<Rightarrow> addr \<Rightarrow> addr \<Rightarrow> 'n heap" where
  "add_points ops h acc src = foldl (\<lambda>h' i. add_at ops h' acc src i) h [0..<length (h src)]"

text \<open>
  The outer loop, lines 121 to 134. The object \<^verbatim>\<open>data\<close> maps a key to a reference; a
  reference to an array is truthy, so \<^verbatim>\<open>!data[index]\<close> holds exactly when the key is
  absent. (Keys that name a property every object inherits, such as \<^verbatim>\<open>__proto__\<close>, are
  outside the model.)
\<close>

fun combine :: "'n number_ops \<Rightarrow> addr item list \<Rightarrow> (string \<rightharpoonup> addr) \<times> 'n heap
    \<Rightarrow> (string \<rightharpoonup> addr) \<times> 'n heap" where
  "combine ops [] (dat, h) = (dat, h)"
| "combine ops (item # rest) (dat, h) =
     (case dat (index_of item) of
        None \<Rightarrow> combine ops rest (dat(index_of item \<mapsto> dataPoints item), h)
      | Some acc \<Rightarrow> combine ops rest (dat, add_points ops h acc (dataPoints item)))"

text \<open>Lines 119 to 136: the loop on the parsed response, starting from the empty object.\<close>

definition aggregate :: "'n number_ops \<Rightarrow> 'n jsval list item list \<Rightarrow> (string \<rightharpoonup> addr) \<times> 'n heap" where
  "aggregate ops epoch_res = combine ops (fst (load epoch_res)) (Map.empty, snd (load epoch_res))"

text \<open>What the caller reads under a key of the returned object: the array it refers to.\<close>

definition entry :: "(string \<rightharpoonup> addr) \<times> 'n heap \<Rightarrow> string \<Rightarrow> 'n jsval list option" where
  "entry r k = map_option (snd r) (fst r k)"

section \<open>The aggregation as a function of the response\<close>

text \<open>
  The loop above works on the store. The definitions of this section describe its result
  from the parsed response alone; the lemmas below prove that the loop computes them.

  \<open>merge_points\<close> is what one run of the inner loop leaves in the accumulator \<open>xs\<close> after
  a later record \<open>ys\<close>: at an index of \<open>ys\<close>, \<^verbatim>\<open>null\<close> where the accumulator holds
  \<^verbatim>\<open>null\<close> and the sum otherwise (the accumulator reads \<^verbatim>\<open>undefined\<close> past its end); at
  the other indices the accumulator's value.
\<close>

definition merge_points :: "'n number_ops \<Rightarrow> 'n jsval list \<Rightarrow> 'n jsval list \<Rightarrow> 'n jsval list" where
  "merge_points ops xs ys =
     map (\<lambda>i. if i < length ys
               then (if js_get xs i = Null then Null else js_add ops (js_get xs i) (ys ! i))
               else xs ! i)
         [0..<max (length xs) (length ys)]"


text \<open>A record of the running program with its array read from the store.\<close>

definition deref :: "'n heap \<Rightarrow> addr item \<Rightarrow> 'n jsval list item" where
  "deref h it = \<lparr>name = name it, date = date it, dataPoints = h (dataPoints it)\<rparr>"


section \<open>The client\<close>

text \<open>
  The class \<^verbatim>\<open>SolarLogOnline\<close> sends every request through one instance of the HTTP
  library. A request is what the library hands to the network; the network is a
  parameter \<open>tr\<close> of every method, a function from the request to a transport error or a
  response whose payload (\<^verbatim>\<open>res.data\<close>) has the type the method expects. The field
  \<open>verb\<close> is the HTTP method, \<open>form\<close> the data of a POST.
\<close>

datatype http_method = GET | POST

datatype param = Single string | Multi "string list" | Omitted

record request =
  verb :: http_method
  base :: string
  url :: string
  params :: "(string \<times> param) list"
  headers :: "(string \<times> string) list"
  form :: "(string \<times> string) list"

record 'b response =
  status :: nat
  payload :: 'b

datatype error = TransportError string | BadStatus nat

type_synonym 'b transport = "request \<Rightarrow> error + 'b response"

text \<open>
  Modelled from the spec: the HTTP library, which is not part of the repository, rejects
  a response whose status is not 2xx; a transport error is passed on.
\<close>

definition validate_status :: "error + 'b response \<Rightarrow> error + 'b response" where
  "validate_status r =
     (case r of
        Inl e \<Rightarrow> Inl e
      | Inr res \<Rightarrow>
          if 200 \<le> status res \<and> status res < 300 then Inr res else Inl (BadStatus (status res)))"

text \<open>
  An object with string keys, as a list of its properties in insertion order.
  \<^verbatim>\<open>obj[k] = v\<close> replaces the value of an existing property and appends a new one.
\<close>

fun obj_set :: "(string \<times> 'v) list \<Rightarrow> string \<Rightarrow> 'v \<Rightarrow> (string \<times> 'v) list" where
  "obj_set [] k v = [(k, v)]"
| "obj_set (p # ps) k v = (if fst p = k then (k, v) # ps else p # obj_set ps k v)"

definition obj_merge :: "(string \<times> 'v) list \<Rightarrow> (string \<times> 'v) list \<Rightarrow> (string \<times> 'v) list" where
  "obj_merge a b = foldl (\<lambda>acc p. obj_set acc (fst p) (snd p)) a b"

text \<open>The five headers of lines 16 to 20, repeated at lines 34 to 38.\<close>

definition default_headers :: "(string \<times> string) list" where
  "default_headers =
     [(''Accept'', ''*/*''),
      (''Accept-Language'', ''en-US,en;q=0.7,de-DE;q=0.3''),
      (''Content-Type'', ''application/x-www-form-urlencoded; charset=UTF-8''),
      (''X-Requested-With'', ''XMLHttpRequest''),
      (''Priority'', ''u=0'')]"

text \<open>
  The state of a client: the fields the constructor sets, the token \<^verbatim>\<open>login\<close> stores, and
  of the library instance the headers given to \<^verbatim>\<open>Axios.create\<close> and the object
  \<^verbatim>\<open>axios.defaults.headers.common\<close>.
\<close>

record client =
  portal :: string
  baseURL :: string
  authURL :: string
  access_token :: "string jsval"
  instance_headers :: "(string \<times> string) list"
  common :: "(string \<times> string) list"

text \<open>
  The constructor, lines 4 to 23; \<open>None\<close> is an option left out. It does not set the
  token, which so reads \<^verbatim>\<open>undefined\<close> (the copy of the class with doc comments sets it to
  \<^verbatim>\<open>null\<close>; no other line differs in behaviour). A new instance of the library has one
  header common to all methods, its own \<^verbatim>\<open>Accept\<close>.
\<close>

definition SolarLogOnline :: "string \<Rightarrow> string option \<Rightarrow> string option \<Rightarrow> client" where
  "SolarLogOnline portal_id base_opt auth_opt =
     \<lparr>portal = portal_id,
      baseURL = (case base_opt of None \<Rightarrow> ''https://api.enerest.world'' | Some u \<Rightarrow> u),
      authURL = (case auth_opt of None \<Rightarrow> ''https://auth.enerest.world'' | Some u \<Rightarrow> u),
      access_token = Undefined,
      instance_headers = default_headers,
      common = [(''Accept'', ''application/json, text/plain, */*'')]\<rparr>"

text \<open>
  Modelled from the spec: the HTTP library sends the instance's default headers with
  every request: those common to all methods, then those given when the instance was
  created, then the request's own; a later header replaces an earlier one of the same
  name.
\<close>

definition outgoing_headers :: "client \<Rightarrow> (string \<times> string) list \<Rightarrow> (string \<times> string) list" where
  "outgoing_headers c hs = obj_merge (obj_merge (common c) (instance_headers c)) hs"

text \<open>\<^verbatim>\<open>this.axios.get(url, {params})\<close>: the request it sends, and its result.\<close>

definition get_config :: "client \<Rightarrow> string \<Rightarrow> (string \<times> param) list \<Rightarrow> request" where
  "get_config c u ps =
     \<lparr>verb = GET, base = baseURL c, url = u, params = ps,
      headers = outgoing_headers c [], form = []\<rparr>"

definition axios_get :: "'b transport \<Rightarrow> client \<Rightarrow> string \<Rightarrow> (string \<times> param) list
    \<Rightarrow> error + 'b response" where
  "axios_get tr c u ps = validate_status (tr (get_config c u ps))"

text \<open>\<^verbatim>\<open>this.axios.post(url, data, {headers})\<close>\<close>

definition post_config :: "client \<Rightarrow> string \<Rightarrow> (string \<times> string) list \<Rightarrow> (string \<times> string) list
    \<Rightarrow> request" where
  "post_config c u body hs =
     \<lparr>verb = POST, base = baseURL c, url = u, params = [],
      headers = outgoing_headers c hs, form = body\<rparr>"

definition axios_post :: "'b transport \<Rightarrow> client \<Rightarrow> string \<Rightarrow> (string \<times> string) list
    \<Rightarrow> (string \<times> string) list \<Rightarrow> error + 'b response" where
  "axios_post tr c u body hs = validate_status (tr (post_config c u body hs))"

text \<open>
  Reading a property of a parsed object with string values gives \<^verbatim>\<open>undefined\<close> when the
  object has no such property; a template literal turns a value into text.
\<close>

definition get_prop :: "(string \<rightharpoonup> string) \<Rightarrow> string \<Rightarrow> string jsval" where
  "get_prop obj k = (case obj k of None \<Rightarrow> Undefined | Some s \<Rightarrow> Val s)"

fun template :: "string jsval \<Rightarrow> string" where
  "template Undefined = ''undefined''"
| "template Null = ''null''"
| "template (Val s) = s"

text \<open>
  \<^verbatim>\<open>login\<close>, lines 25 to 45. A rejected request throws before line 42, so the client is
  unchanged; otherwise lines 42 and 44 store the token and set the header.
\<close>

definition login :: "(string \<rightharpoonup> string) transport \<Rightarrow> client \<Rightarrow> string \<Rightarrow> string \<Rightarrow> error + client" where
  "login tr c client_id client_secret =
     (case axios_post tr c (authURL c @ ''/auth/realms/quotaapi/protocol/openid-connect/token'')
             [(''grant_type'', ''client_credentials''),
              (''client_id'', client_id),
              (''client_secret'', client_secret)]
             default_headers of
        Inl e \<Rightarrow> Inl e
      | Inr res \<Rightarrow>
          Inr (c\<lparr>access_token := get_prop (payload res) ''access_token'',
                 common := obj_set (common c) ''Authorization''
                             (''Bearer '' @ template (get_prop (payload res) ''access_token''))\<rparr>))"

text \<open>
  The read calls, lines 47 to 107. Each returns \<^verbatim>\<open>res.data\<close>. The parameter \<^verbatim>\<open>date\<close> of
  \<^verbatim>\<open>components\<close> and \<^verbatim>\<open>get_inverters\<close> is \<open>day\<close> here.
\<close>

definition components :: "'b transport \<Rightarrow> client \<Rightarrow> string \<Rightarrow> string \<Rightarrow> error + 'b" where
  "components tr c plantId day =
     (case axios_get tr c
             (''/api/v1/'' @ portal c @ ''/datasource/plant/'' @ plantId @ ''/components/'' @ day) [] of
        Inl e \<Rightarrow> Inl e
      | Inr res \<Rightarrow> Inr (payload res))"

definition crossEpochChannels :: "'b transport \<Rightarrow> client \<Rightarrow> string \<Rightarrow> string list \<Rightarrow> string list
    \<Rightarrow> string \<Rightarrow> string \<Rightarrow> error + 'b" where
  "crossEpochChannels tr c plantId xComponentIds channelNames dateFrom dateTo =
     (case axios_get tr c
             (''/api/v1/'' @ portal c @ ''/visualization/plant/'' @ plantId @ ''/cross-epoch/channels'')
             [(''xComponentIds'', Multi xComponentIds),
              (''channelNames'', Multi channelNames),
              (''dateFrom'', Single dateFrom),
              (''dateTo'', Single dateTo)] of
        Inl e \<Rightarrow> Inl e
      | Inr res \<Rightarrow> Inr (payload res))"

definition channels :: "'b transport \<Rightarrow> client \<Rightarrow> string \<Rightarrow> string \<Rightarrow> string \<Rightarrow> string list
    \<Rightarrow> string list option \<Rightarrow> error + 'b" where
  "channels tr c plantId dateFrom dateTo channelNames mppTrackerIds =
     (case axios_get tr c
             (''/api/v1/'' @ portal c @ ''/visualization/plant/'' @ plantId @ ''/channels'')
             [(''dateFrom'', Single dateFrom),
              (''dateTo'', Single dateTo),
              (''channelNames'', Multi channelNames),
              (''mppTrackerIds'', (case mppTrackerIds of None \<Rightarrow> Omitted | Some ids \<Rightarrow> Multi ids))] of
        Inl e \<Rightarrow> Inl e
      | Inr res \<Rightarrow> Inr (payload res))"

definition get_channel_data_month :: "'b transport \<Rightarrow> client \<Rightarrow> string \<Rightarrow> string \<Rightarrow> string
    \<Rightarrow> string list \<Rightarrow> error + 'b" where
  "get_channel_data_month tr c plantId year month channelNames =
     (case axios_get tr c
             (''/api/v1/'' @ portal c @ ''/visualization/plant/'' @ plantId
                @ ''/year/'' @ year @ ''/month/'' @ month)
             [(''channelNames'', Multi channelNames)] of
        Inl e \<Rightarrow> Inl e
      | Inr res \<Rightarrow> Inr (payload res))"

definition get_channel_data_year :: "'b transport \<Rightarrow> client \<Rightarrow> string \<Rightarrow> string \<Rightarrow> string list
    \<Rightarrow> error + 'b" where
  "get_channel_data_year tr c plantId year channelNames =
     (case axios_get tr c
             (''/api/v1/'' @ portal c @ ''/visualization/plant/'' @ plantId @ ''/year/'' @ year)
             [(''channelNames'', Multi channelNames)] of
        Inl e \<Rightarrow> Inl e
      | Inr res \<Rightarrow> Inr (payload res))"

definition get_channel_data_lifetime :: "'b transport \<Rightarrow> client \<Rightarrow> string \<Rightarrow> string list
    \<Rightarrow> error + 'b" where
  "get_channel_data_lifetime tr c plantId channelNames =
     (case axios_get tr c
             (''/api/v1/'' @ portal c @ ''/visualization/plant/'' @ plantId @ ''/lifetime'')
             [(''channelNames'', Multi channelNames)] of
        Inl e \<Rightarrow> Inl e
      | Inr res \<Rightarrow> Inr (payload res))"

text \<open>
  A component of the portal; the client reads its \<^verbatim>\<open>type\<close> only (\<open>comp_type\<close>, a string
  when present), and the record can be extended with the portal's other fields.
\<close>

record component =
  comp_id :: string
  comp_name :: string
  comp_type :: "string jsval"
  crossEpochId :: string

text \<open>\<^verbatim>\<open>get_inverters\<close>, lines 74 to 80.\<close>

definition get_inverters :: "'a component_scheme list transport \<Rightarrow> client \<Rightarrow> string \<Rightarrow> string
    \<Rightarrow> error + 'a component_scheme list" where
  "get_inverters tr c plantId day =
     (case components tr c plantId day of
        Inl e \<Rightarrow> Inl e
      | Inr comps \<Rightarrow> Inr (filter (\<lambda>component. comp_type component = Val ''Inverter'') comps))"

text \<open>
  \<^verbatim>\<open>get_combined_inverter_data\<close>, lines 110 to 137: the fetch, then the loop on its
  result. A failed fetch throws at line 111, before the loop.
\<close>

definition get_combined_inverter_data :: "'n number_ops \<Rightarrow> 'n jsval list item list transport
    \<Rightarrow> client \<Rightarrow> string \<Rightarrow> string list \<Rightarrow> string \<Rightarrow> string
    \<Rightarrow> error + ((string \<rightharpoonup> addr) \<times> 'n heap)" where
  "get_combined_inverter_data ops tr c plantId inverters dateFrom dateTo =
     (case crossEpochChannels tr c plantId inverters [''ProdPdc'', ''ProdEtotal''] dateFrom dateTo of
        Inl e \<Rightarrow> Inl e
      | Inr epoch_res \<Rightarrow> Inr (aggregate ops epoch_res))"

text \<open>Networks for the examples.\<close>

definition token_server :: "(string \<rightharpoonup> string) transport" where
  "token_server req = Inr \<lparr>status = 200, payload = [''access_token'' \<mapsto> ''abc'']\<rparr>"

definition tokenless_server :: "(string \<rightharpoonup> string) transport" where
  "tokenless_server req = Inr \<lparr>status = 200, payload = Map.empty\<rparr>"

definition unauthorized_server :: "(string \<rightharpoonup> string) transport" where
  "unauthorized_server req = Inr \<lparr>status = 401, payload = Map.empty\<rparr>"

definition offline :: "'b transport" where
  "offline req = Inl (TransportError ''timeout'')"

definition plant_server :: "component list transport" where
  "plant_server req = Inr \<lparr>status = 200, payload =
     [\<lparr>comp_id = ''1'', comp_name = ''east'', comp_type = Val ''Inverter'', crossEpochId = ''x1''\<rparr>,
      \<lparr>comp_id = ''2'', comp_name = ''meter'', comp_type = Val ''Meter'', crossEpochId = ''x2''\<rparr>,
      \<lparr>comp_id = ''3'', comp_name = ''west'', comp_type = Val ''Inverter'', crossEpochId = ''x3''\<rparr>]\<rparr>"

definition series_server :: "exact_num jsval list item list transport" where
  "series_server req = Inr \<lparr>status = 200, payload =
     [\<lparr>name = ''ProdPdc'', date = ''2024-01-01'', dataPoints = [Val (Fin 1), Val (Fin 2), Null]\<rparr>,
      \<lparr>name = ''ProdPdc'', date = ''2024-01-01'', dataPoints = [Val (Fin 3), Val (Fin 4), Val (Fin 5)]\<rparr>]\<rparr>"

text \<open>
  What the constructor establishes and \<^verbatim>\<open>login\<close> keeps: the common headers are an object,
  so no name occurs twice, and the headers given at creation do not set
  \<^verbatim>\<open>Authorization\<close>.
\<close>

definition wf_client :: "client \<Rightarrow> bool" where
  "wf_client c \<longleftrightarrow>
     distinct (map fst (common c)) \<and> ''Authorization'' \<notin> fst ` set (instance_headers c)"

text \<open>The values of the \<^verbatim>\<open>Authorization\<close> headers of a request, one for each such header.\<close>

definition authorization :: "request \<Rightarrow> string list" where
  "authorization req = map snd (filter (\<lambda>h. fst h = ''Authorization'') (headers req))"

text \<open>A network that answers every request with the values of its \<^verbatim>\<open>Authorization\<close> headers.\<close>

definition echo_authorization :: "string list transport" where
  "echo_authorization req = Inr \<lparr>status = 200, payload = authorization req\<rparr>"

section \<open>The inner loop\<close>

lemma length_merge_points [simp]: "length (merge_points ops xs ys) = max (length xs) (length ys)"
  by (simp add: merge_points_def)


lemma merge_points_Nil [simp]: "merge_points ops xs [] = xs"
  by (simp add: merge_points_def map_nth)

lemma js_add_not_Null [simp]: "js_add ops x y \<noteq> Null"
  by (simp add: js_add_def)







section \<open>The outer loop\<close>

lemma index_of_deref [simp]: "index_of (deref h it) = index_of it"
  by (simp add: index_of_def deref_def)

lemma dataPoints_deref [simp]: "dataPoints (deref h it) = h (dataPoints it)"
  by (simp add: deref_def)















lemma length_load [simp]: "length (fst (load res)) = length res"
  by (simp add: load_def)









section \<open>Keys\<close>






section \<open>Lengths and elements of an entry\<close>





section \<open>Objects and headers\<close>

lemma obj_set_keys:
  "fst ` set (obj_set kvs k v) = insert k (fst ` set kvs)"
  by (induction kvs) auto

lemma obj_set_distinct:
  "distinct (map fst kvs) \<Longrightarrow> distinct (map fst (obj_set kvs k v))"
  by (induction kvs) (auto simp: obj_set_keys)

lemma filter_absent: "k \<notin> fst ` set kvs \<Longrightarrow> filter (\<lambda>h. fst h = k) kvs = []"
  by (induction kvs) auto

lemma obj_set_filter_same:
  "distinct (map fst kvs) \<Longrightarrow> filter (\<lambda>h. fst h = k) (obj_set kvs k v) = [(k, v)]"
  by (induction kvs) (auto simp: filter_absent)

lemma obj_set_filter_other:
  "k' \<noteq> k \<Longrightarrow> filter (\<lambda>h. fst h = k') (obj_set kvs k v) = filter (\<lambda>h. fst h = k') kvs"
  by (induction kvs) auto

lemma obj_merge_filter_other:
  "k' \<notin> fst ` set b \<Longrightarrow> filter (\<lambda>h. fst h = k') (obj_merge a b) = filter (\<lambda>h. fst h = k') a"
  unfolding obj_merge_def
  by (induction b arbitrary: a) (auto simp: obj_set_filter_other)

lemma authorization_get_config:
  "''Authorization'' \<notin> fst ` set (instance_headers c) \<Longrightarrow>
   authorization (get_config c u ps)
   = map snd (filter (\<lambda>h. fst h = ''Authorization'') (common c))"
  by (simp add: authorization_def get_config_def outgoing_headers_def obj_merge_filter_other)

lemma axios_get_echo:
  "axios_get echo_authorization c u ps
   = Inr \<lparr>status = 200, payload = authorization (get_config c u ps)\<rparr>"
  by (simp add: axios_get_def echo_authorization_def validate_status_def)

lemma read_calls_echo:
  "components echo_authorization c plantId day = Inr (authorization (get_config c u ps))"
  "crossEpochChannels echo_authorization c plantId ids names dateFrom dateTo
   = Inr (authorization (get_config c u ps))"
  "channels echo_authorization c plantId dateFrom dateTo names trackers
   = Inr (authorization (get_config c u ps))"
  "get_channel_data_month echo_authorization c plantId year month names
   = Inr (authorization (get_config c u ps))"
  "get_channel_data_year echo_authorization c plantId year names
   = Inr (authorization (get_config c u ps))"
  "get_channel_data_lifetime echo_authorization c plantId names
   = Inr (authorization (get_config c u ps))"
  by (simp_all add: components_def crossEpochChannels_def channels_def get_channel_data_month_def
      get_channel_data_year_def get_channel_data_lifetime_def axios_get_echo)
    (simp_all add: authorization_def get_config_def)

lemma login_Inr:
  assumes "login tr c i s = Inr c'"
  shows "common c' = obj_set (common c) ''Authorization'' (''Bearer '' @ template (access_token c'))"
    and "instance_headers c' = instance_headers c"
  using assms by (auto simp: login_def split: sum.splits)

lemma count_list_filter:
  "count_list (filter P xs) x = (if P x then count_list xs x else 0)"
  by (induction xs) auto

section \<open>Claims\<close>











text \<open>
  Claim C5: when the components call returns a list, \<^verbatim>\<open>get_inverters\<close> returns the
  records of that list whose type is \<^verbatim>\<open>"Inverter"\<close>: all of them, as often as they occur,
  nothing else, in their original order. When the components call fails,
  \<^verbatim>\<open>get_inverters\<close> fails with the same error.
\<close>

theorem get_inverters_filter:
  "(components tr c plantId day = Inr comps \<longrightarrow>
      get_inverters tr c plantId day
        = Inr (filter (\<lambda>component. comp_type component = Val ''Inverter'') comps)
      \<and> (\<exists>invs. get_inverters tr c plantId day = Inr invs
            \<and> subseq invs comps
            \<and> set invs = {x \<in> set comps. comp_type x = Val ''Inverter''}
            \<and> (\<forall>x. comp_type x = Val ''Inverter'' \<longrightarrow> count_list invs x = count_list comps x)))
   \<and> (components tr c plantId day = Inl e \<longrightarrow> get_inverters tr c plantId day = Inl e)"
  by (auto simp: get_inverters_def count_list_filter)

theorem get_inverters_filter_witness:
  "get_inverters plant_server (SolarLogOnline ''p'' None None) ''7'' ''2024-01-01''
     = Inr [\<lparr>comp_id = ''1'', comp_name = ''east'', comp_type = Val ''Inverter'', crossEpochId = ''x1''\<rparr>,
            \<lparr>comp_id = ''3'', comp_name = ''west'', comp_type = Val ''Inverter'', crossEpochId = ''x3''\<rparr>]
   \<and> get_inverters offline (SolarLogOnline ''p'' None None) ''7'' ''2024-01-01''
     = (Inl (TransportError ''timeout'') :: error + component list)"
proof -
  let ?c = "SolarLogOnline ''p'' None None"
  let ?comps = "[\<lparr>comp_id = ''1'', comp_name = ''east'', comp_type = Val ''Inverter'', crossEpochId = ''x1''\<rparr>,
      \<lparr>comp_id = ''2'', comp_name = ''meter'', comp_type = Val ''Meter'', crossEpochId = ''x2''\<rparr>,
      \<lparr>comp_id = ''3'', comp_name = ''west'', comp_type = Val ''Inverter'', crossEpochId = ''x3''\<rparr>]"
  have 1: "components plant_server ?c ''7'' ''2024-01-01'' = Inr ?comps"
    by (simp add: components_def axios_get_def validate_status_def plant_server_def)
  have 2: "components offline ?c ''7'' ''2024-01-01''
      = (Inl (TransportError ''timeout'') :: error + component list)"
    by (simp add: components_def axios_get_def validate_status_def offline_def)
  have a: "get_inverters plant_server ?c ''7'' ''2024-01-01''
        = Inr (filter (\<lambda>component. comp_type component = Val ''Inverter'') ?comps)"
    using get_inverters_filter [of plant_server ?c "''7''" "''2024-01-01''" ?comps] 1 by blast
  have b: "get_inverters offline ?c ''7'' ''2024-01-01''
     = (Inl (TransportError ''timeout'') :: error + component list)"
    using get_inverters_filter [of offline ?c "''7''" "''2024-01-01''" _ "TransportError ''timeout''"] 2
    by blast
  from a b show ?thesis by simp
qed

text \<open>
  Claim C6: \<^verbatim>\<open>get_combined_inverter_data\<close> sends the one request of
  \<^verbatim>\<open>crossEpochChannels\<close> for the caller's plant, component ids and date bounds and the
  channel names \<^verbatim>\<open>ProdPdc\<close> and \<^verbatim>\<open>ProdEtotal\<close>. When that call fails, the operation
  fails with its error and returns no object; when it succeeds, the result is the
  aggregation of its payload.
\<close>

theorem combined_delegates:
  "get_combined_inverter_data ops tr c plantId inverters dateFrom dateTo
     = (case validate_status (tr (get_config c
              (''/api/v1/'' @ portal c @ ''/visualization/plant/'' @ plantId @ ''/cross-epoch/channels'')
              [(''xComponentIds'', Multi inverters),
               (''channelNames'', Multi [''ProdPdc'', ''ProdEtotal'']),
               (''dateFrom'', Single dateFrom),
               (''dateTo'', Single dateTo)])) of
          Inl e \<Rightarrow> Inl e
        | Inr res \<Rightarrow> Inr (aggregate ops (payload res)))
   \<and> (crossEpochChannels tr c plantId inverters [''ProdPdc'', ''ProdEtotal''] dateFrom dateTo = Inl e
        \<longrightarrow> get_combined_inverter_data ops tr c plantId inverters dateFrom dateTo = Inl e)
   \<and> (crossEpochChannels tr c plantId inverters [''ProdPdc'', ''ProdEtotal''] dateFrom dateTo
          = Inr epoch_res
        \<longrightarrow> get_combined_inverter_data ops tr c plantId inverters dateFrom dateTo
          = Inr (aggregate ops epoch_res))"
  by (simp add: get_combined_inverter_data_def crossEpochChannels_def axios_get_def
        split: sum.splits)

theorem combined_delegates_witness:
  "map_sum id (\<lambda>r. entry r ''ProdPdc_2024-01-01'')
     (get_combined_inverter_data exact series_server (SolarLogOnline ''p'' None None)
        ''7'' [''x1'', ''x3''] ''2024-01-01'' ''today'')
     = Inr (Some [Val (Fin 4), Val (Fin 6), Null])
   \<and> get_combined_inverter_data exact offline (SolarLogOnline ''p'' None None)
        ''7'' [''x1'', ''x3''] ''2024-01-01'' ''today''
     = Inl (TransportError ''timeout'')"
proof -
  let ?c = "SolarLogOnline ''p'' None None"
  let ?res = "[\<lparr>name = ''ProdPdc'', date = ''2024-01-01'', dataPoints = [Val (Fin 1), Val (Fin 2), Null]\<rparr>,
      \<lparr>name = ''ProdPdc'', date = ''2024-01-01'', dataPoints = [Val (Fin 3), Val (Fin 4), Val (Fin 5)]\<rparr>]"
  have 1: "crossEpochChannels series_server ?c ''7'' [''x1'', ''x3''] [''ProdPdc'', ''ProdEtotal'']
        ''2024-01-01'' ''today'' = Inr ?res"
    by (simp add: crossEpochChannels_def axios_get_def validate_status_def series_server_def)
  have 2: "crossEpochChannels offline ?c ''7'' [''x1'', ''x3''] [''ProdPdc'', ''ProdEtotal'']
        ''2024-01-01'' ''today'' = (Inl (TransportError ''timeout'') :: error + exact_num jsval list item list)"
    by (simp add: crossEpochChannels_def axios_get_def validate_status_def offline_def)
  have e: "entry (aggregate exact ?res) ''ProdPdc_2024-01-01'' = Some [Val (Fin 4), Val (Fin 6), Null]"
    by code_simp
  have a: "get_combined_inverter_data exact series_server ?c ''7'' [''x1'', ''x3''] ''2024-01-01'' ''today''
      = Inr (aggregate exact ?res)"
    using combined_delegates [of exact series_server ?c "''7''" "[''x1'', ''x3'']" "''2024-01-01''"
        "''today''" _ ?res] 1
    by blast
  have b: "get_combined_inverter_data exact offline ?c ''7'' [''x1'', ''x3''] ''2024-01-01'' ''today''
      = Inl (TransportError ''timeout'')"
    using combined_delegates [of exact offline ?c "''7''" "[''x1'', ''x3'']" "''2024-01-01''"
        "''today''" "TransportError ''timeout''"] 2
    by blast
  show ?thesis unfolding a b by (simp add: e)
qed

text \<open>
  Claim C7, as stated, has \<^verbatim>\<open>login\<close> fail when the payload has no \<^verbatim>\<open>access_token\<close>. Against
  a server that answers 200 with an empty object, \<^verbatim>\<open>login\<close> succeeds: it stores
  \<^verbatim>\<open>undefined\<close> as the token and sets the header to \<^verbatim>\<open>Bearer undefined\<close>.
\<close>

theorem login_without_token_succeeds:
  "login tokenless_server (SolarLogOnline ''p'' None None) ''id'' ''secret''
   = Inr ((SolarLogOnline ''p'' None None)
        \<lparr>access_token := Undefined,
         common := [(''Accept'', ''application/json, text/plain, */*''),
                    (''Authorization'', ''Bearer undefined'')]\<rparr>)"
  by (simp add: login_def axios_post_def validate_status_def tokenless_server_def get_prop_def
        SolarLogOnline_def)

text \<open>
  Claim C7, amended: \<^verbatim>\<open>login\<close> fails, with the error of the transport, when the token
  request meets a transport error or a response that is not 2xx. On a 2xx response it
  succeeds, stores the payload's \<^verbatim>\<open>access_token\<close> and sets the \<^verbatim>\<open>Authorization\<close> header
  to \<^verbatim>\<open>Bearer\<close> and that token; a payload without the field gives the token
  \<^verbatim>\<open>undefined\<close> and the header \<^verbatim>\<open>Bearer undefined\<close>.
\<close>

theorem login_outcome:
  "(tr (post_config c (authURL c @ ''/auth/realms/quotaapi/protocol/openid-connect/token'')
          [(''grant_type'', ''client_credentials''), (''client_id'', client_id),
           (''client_secret'', client_secret)] default_headers) = Inl e
      \<longrightarrow> login tr c client_id client_secret = Inl e)
   \<and> (tr (post_config c (authURL c @ ''/auth/realms/quotaapi/protocol/openid-connect/token'')
          [(''grant_type'', ''client_credentials''), (''client_id'', client_id),
           (''client_secret'', client_secret)] default_headers) = Inr res
      \<longrightarrow> login tr c client_id client_secret
          = (if 200 \<le> status res \<and> status res < 300
             then Inr (c\<lparr>access_token := get_prop (payload res) ''access_token'',
                         common := obj_set (common c) ''Authorization''
                           (''Bearer '' @ template (get_prop (payload res) ''access_token''))\<rparr>)
             else Inl (BadStatus (status res))))
   \<and> (payload res ''access_token'' = None \<longrightarrow>
        get_prop (payload res) ''access_token'' = Undefined
        \<and> ''Bearer '' @ template (get_prop (payload res) ''access_token'') = ''Bearer undefined'')
   \<and> (payload res ''access_token'' = Some token \<longrightarrow>
        get_prop (payload res) ''access_token'' = Val token
        \<and> ''Bearer '' @ template (get_prop (payload res) ''access_token'') = ''Bearer '' @ token)"
  by (simp add: login_def axios_post_def validate_status_def get_prop_def)

theorem login_outcome_witness:
  "login offline (SolarLogOnline ''p'' None None) ''id'' ''secret'' = Inl (TransportError ''timeout'')
   \<and> login unauthorized_server (SolarLogOnline ''p'' None None) ''id'' ''secret'' = Inl (BadStatus 401)
   \<and> login token_server (SolarLogOnline ''p'' None None) ''id'' ''secret''
     = Inr ((SolarLogOnline ''p'' None None)
          \<lparr>access_token := Val ''abc'',
           common := [(''Accept'', ''application/json, text/plain, */*''),
                      (''Authorization'', ''Bearer abc'')]\<rparr>)
   \<and> ''Bearer '' @ template (get_prop (payload \<lparr>status = 200, payload = Map.empty\<rparr>) ''access_token'')
     = ''Bearer undefined''"
proof -
  let ?c = "SolarLogOnline ''p'' None None"
  let ?req = "post_config ?c (authURL ?c @ ''/auth/realms/quotaapi/protocol/openid-connect/token'')
          [(''grant_type'', ''client_credentials''), (''client_id'', ''id''),
           (''client_secret'', ''secret'')] default_headers"
  have 1: "offline ?req = (Inl (TransportError ''timeout'') :: error + (string \<rightharpoonup> string) response)"
    by (simp add: offline_def)
  have 2: "unauthorized_server ?req = Inr \<lparr>status = 401, payload = Map.empty\<rparr>"
    by (simp add: unauthorized_server_def)
  have 3: "token_server ?req = Inr \<lparr>status = 200, payload = [''access_token'' \<mapsto> ''abc'']\<rparr>"
    by (simp add: token_server_def)
  have a: "login offline ?c ''id'' ''secret'' = Inl (TransportError ''timeout'')"
    using login_outcome [of offline ?c "''id''" "''secret''" "TransportError ''timeout''"] 1 by blast
  have b: "login unauthorized_server ?c ''id'' ''secret'' = Inl (BadStatus 401)"
    using login_outcome [of unauthorized_server ?c "''id''" "''secret''" _
        "\<lparr>status = 401, payload = Map.empty\<rparr>"] 2
    by simp
  have c: "login token_server ?c ''id'' ''secret''
     = Inr (?c\<lparr>access_token := Val ''abc'',
           common := [(''Accept'', ''application/json, text/plain, */*''),
                      (''Authorization'', ''Bearer abc'')]\<rparr>)"
    using login_outcome [of token_server ?c "''id''" "''secret''" _
        "\<lparr>status = 200, payload = [''access_token'' \<mapsto> ''abc'']\<rparr>" "''abc''"] 3
    by (simp add: SolarLogOnline_def)
  have "payload \<lparr>status = 200, payload = Map.empty :: string \<rightharpoonup> string\<rparr> ''access_token'' = None"
    by simp
  with login_outcome [of tokenless_server ?c "''id''" "''secret''" _
        "\<lparr>status = 200, payload = Map.empty\<rparr>"]
  have d: "''Bearer '' @ template (get_prop (payload \<lparr>status = 200, payload = Map.empty\<rparr>) ''access_token'')
     = ''Bearer undefined''"
    by blast
  from a b c d show ?thesis by blast
qed

text \<open>
  Claim C8: a request of a new client has no \<^verbatim>\<open>Authorization\<close> header; after a
  successful \<^verbatim>\<open>login\<close>, from a new client or from one that has logged in before, a
  request has exactly one, \<^verbatim>\<open>Bearer\<close> followed by the stored token. The requests are
  those of \<open>get_config\<close>, which every read call sends: against a network that echoes the
  header, each of the six read calls returns the header values of \<open>get_config\<close>
  (\<^verbatim>\<open>get_inverters\<close> and \<^verbatim>\<open>get_combined_inverter_data\<close> call \<^verbatim>\<open>components\<close> and
  \<^verbatim>\<open>crossEpochChannels\<close>). \<open>wf_client\<close> holds of every client the constructor and
  \<^verbatim>\<open>login\<close> produce.
\<close>

theorem bearer_header:
  "wf_client (SolarLogOnline portal_id base_opt auth_opt)
   \<and> authorization (get_config (SolarLogOnline portal_id base_opt auth_opt) u ps) = []
   \<and> (wf_client c \<and> login tr c client_id client_secret = Inr c' \<longrightarrow>
        wf_client c'
        \<and> authorization (get_config c' u ps) = [''Bearer '' @ template (access_token c')])
   \<and> components echo_authorization c plantId day = Inr (authorization (get_config c u ps))
   \<and> crossEpochChannels echo_authorization c plantId ids names dateFrom dateTo
       = Inr (authorization (get_config c u ps))
   \<and> channels echo_authorization c plantId dateFrom dateTo names trackers
       = Inr (authorization (get_config c u ps))
   \<and> get_channel_data_month echo_authorization c plantId year month names
       = Inr (authorization (get_config c u ps))
   \<and> get_channel_data_year echo_authorization c plantId year names
       = Inr (authorization (get_config c u ps))
   \<and> get_channel_data_lifetime echo_authorization c plantId names
       = Inr (authorization (get_config c u ps))"
proof (intro conjI impI)
  show wf0: "wf_client (SolarLogOnline portal_id base_opt auth_opt)"
    by (simp add: wf_client_def SolarLogOnline_def default_headers_def)
  then show "authorization (get_config (SolarLogOnline portal_id base_opt auth_opt) u ps) = []"
    by (simp add: authorization_get_config wf_client_def) (simp add: SolarLogOnline_def)
next
  assume h: "wf_client c \<and> login tr c client_id client_secret = Inr c'"
  note l = login_Inr [of tr c client_id client_secret c']
  show wf: "wf_client c'"
    using h l by (simp add: wf_client_def obj_set_distinct)
  then have "authorization (get_config c' u ps)
      = map snd (filter (\<lambda>h. fst h = ''Authorization'') (common c'))"
    by (simp add: authorization_get_config wf_client_def)
  also have "\<dots> = [''Bearer '' @ template (access_token c')]"
    using h l(1) by (simp add: obj_set_filter_same wf_client_def)
  finally show "authorization (get_config c' u ps) = [''Bearer '' @ template (access_token c')]" .
qed (rule read_calls_echo)+

theorem bearer_header_witness:
  "authorization (get_config (SolarLogOnline ''p'' None None) ''/api/v1/p/x'' []) = []
   \<and> components echo_authorization (SolarLogOnline ''p'' None None) ''7'' ''2024-01-01'' = Inr []
   \<and> authorization (get_config
        ((SolarLogOnline ''p'' None None)
          \<lparr>access_token := Val ''abc'',
           common := [(''Accept'', ''application/json, text/plain, */*''),
                      (''Authorization'', ''Bearer abc'')]\<rparr>) ''/api/v1/p/x'' [])
     = [''Bearer abc'']
   \<and> components echo_authorization
        ((SolarLogOnline ''p'' None None)
          \<lparr>access_token := Val ''abc'',
           common := [(''Accept'', ''application/json, text/plain, */*''),
                      (''Authorization'', ''Bearer abc'')]\<rparr>) ''7'' ''2024-01-01''
     = Inr [''Bearer abc'']"
proof -
  let ?c = "SolarLogOnline ''p'' None None"
  let ?c' = "?c\<lparr>access_token := Val ''abc'',
           common := [(''Accept'', ''application/json, text/plain, */*''),
                      (''Authorization'', ''Bearer abc'')]\<rparr>"
  note t = bearer_header [of "''p''" None None "''/api/v1/p/x''" "[]" ?c token_server "''id''"
      "''secret''" ?c' "''7''" "''2024-01-01''" "[]" "[]" "''today''" "''today''" None "''2024''" "''1''"]
  note t' = bearer_header [of "''p''" None None "''/api/v1/p/x''" "[]" ?c' token_server "''id''"
      "''secret''" ?c' "''7''" "''2024-01-01''" "[]" "[]" "''today''" "''today''" None "''2024''" "''1''"]
  have l: "login token_server ?c ''id'' ''secret'' = Inr ?c'"
    by (simp add: login_def axios_post_def validate_status_def token_server_def get_prop_def
        SolarLogOnline_def)
  from t have wf: "wf_client ?c" and a: "authorization (get_config ?c ''/api/v1/p/x'' []) = []"
    and e: "components echo_authorization ?c ''7'' ''2024-01-01''
            = Inr (authorization (get_config ?c ''/api/v1/p/x'' []))"
    by blast+
  from t wf l have "authorization (get_config ?c' ''/api/v1/p/x'' [])
      = [''Bearer '' @ template (access_token ?c')]"
    by blast
  then have b: "authorization (get_config ?c' ''/api/v1/p/x'' []) = [''Bearer abc'']"
    by simp
  from t' have e': "components echo_authorization ?c' ''7'' ''2024-01-01''
            = Inr (authorization (get_config ?c' ''/api/v1/p/x'' []))"
    by blast
  from a b e e' show ?thesis by (simp only:)
qed





end
